theory Spec2Isabelle
  imports Complex_Main
begin

section \<open>Mueller matrices of mitsuba2 (include/mitsuba/render/mueller.h)\<close>

text \<open>
  The header is a library of pure functions that build and combine 4x4 matrices over a
  scalar type \<open>Float\<close>, which is a template parameter of every function. The
  development instantiates \<open>Float\<close> at \<^typ>\<open>real\<close>: rounding, overflow and the
  signed zero of IEEE arithmetic are not modelled. The one exception is
  \<open>specular_reflection\<close>, whose masked assignments exist only to stop a NaN: it is
  instantiated at a scalar type that has a NaN (type \<open>flt\<close> below). A literal with
  the suffix \<open>f\<close> is a single-precision constant whatever \<open>Float\<close> is, and keeps
  its single-precision value.
\<close>

subsection \<open>Data model\<close>

text \<open>
  \<open>MuellerMatrix<Float>\<close> is enoki's \<open>Matrix<Float, 4>\<close>. Its sixteen-argument
  constructor takes the entries row by row, and so does the constructor here.
\<close>

datatype 'a MuellerMatrix =
  MuellerMatrix 'a 'a 'a 'a
                'a 'a 'a 'a
                'a 'a 'a 'a
                'a 'a 'a 'a

text \<open>\<open>M(i, j)\<close>: row \<open>i\<close>, column \<open>j\<close>, both counted from 0.\<close>

fun rows :: "'a MuellerMatrix \<Rightarrow> 'a list list" where
  "rows (MuellerMatrix m00 m01 m02 m03
                       m10 m11 m12 m13
                       m20 m21 m22 m23
                       m30 m31 m32 m33) =
     [[m00, m01, m02, m03],
      [m10, m11, m12, m13],
      [m20, m21, m22, m23],
      [m30, m31, m32, m33]]"

definition entry :: "'a MuellerMatrix \<Rightarrow> nat \<Rightarrow> nat \<Rightarrow> 'a" where
  "entry M i j = rows M ! i ! j"

text \<open>\<open>ek::identity<MuellerMatrix<Float>>()\<close>.\<close>

definition identity :: "real MuellerMatrix" where
  "identity = MuellerMatrix 1 0 0 0
                            0 1 0 0
                            0 0 1 0
                            0 0 0 1"

text \<open>\<open>ek::zero<MuellerMatrix<Float>>()\<close>.\<close>

definition zero_matrix :: "real MuellerMatrix" where
  "zero_matrix = MuellerMatrix 0 0 0 0
                               0 0 0 0
                               0 0 0 0
                               0 0 0 0"

text \<open>\<open>A * B\<close> on matrices: the matrix product.\<close>

fun mat_mul :: "real MuellerMatrix \<Rightarrow> real MuellerMatrix \<Rightarrow> real MuellerMatrix" where
  "mat_mul (MuellerMatrix a00 a01 a02 a03
                          a10 a11 a12 a13
                          a20 a21 a22 a23
                          a30 a31 a32 a33)
           (MuellerMatrix b00 b01 b02 b03
                          b10 b11 b12 b13
                          b20 b21 b22 b23
                          b30 b31 b32 b33) =
     MuellerMatrix
       (a00 * b00 + a01 * b10 + a02 * b20 + a03 * b30)
       (a00 * b01 + a01 * b11 + a02 * b21 + a03 * b31)
       (a00 * b02 + a01 * b12 + a02 * b22 + a03 * b32)
       (a00 * b03 + a01 * b13 + a02 * b23 + a03 * b33)
       (a10 * b00 + a11 * b10 + a12 * b20 + a13 * b30)
       (a10 * b01 + a11 * b11 + a12 * b21 + a13 * b31)
       (a10 * b02 + a11 * b12 + a12 * b22 + a13 * b32)
       (a10 * b03 + a11 * b13 + a12 * b23 + a13 * b33)
       (a20 * b00 + a21 * b10 + a22 * b20 + a23 * b30)
       (a20 * b01 + a21 * b11 + a22 * b21 + a23 * b31)
       (a20 * b02 + a21 * b12 + a22 * b22 + a23 * b32)
       (a20 * b03 + a21 * b13 + a22 * b23 + a23 * b33)
       (a30 * b00 + a31 * b10 + a32 * b20 + a33 * b30)
       (a30 * b01 + a31 * b11 + a32 * b21 + a33 * b31)
       (a30 * b02 + a31 * b12 + a32 * b22 + a33 * b32)
       (a30 * b03 + a31 * b13 + a32 * b23 + a33 * b33)"

text \<open>\<open>transpose(M)\<close>.\<close>

fun transpose_m :: "'a MuellerMatrix \<Rightarrow> 'a MuellerMatrix" where
  "transpose_m (MuellerMatrix m00 m01 m02 m03
                              m10 m11 m12 m13
                              m20 m21 m22 m23
                              m30 m31 m32 m33) =
     MuellerMatrix m00 m10 m20 m30
                   m01 m11 m21 m31
                   m02 m12 m22 m32
                   m03 m13 m23 m33"

text \<open>
  A Stokes vector is stored as a Mueller matrix "with only the first column having
  non-zero entries" (the header's opening comment). The components are, in this order,
  the intensity (index 0), the horizontal/vertical linear balance (1), the +45/-45 degree
  linear balance (2) and the circular balance (3).
\<close>

definition stokes_vector :: "real \<Rightarrow> real \<Rightarrow> real \<Rightarrow> real \<Rightarrow> real MuellerMatrix" where
  "stokes_vector s0 s1 s2 s3 = MuellerMatrix s0 0 0 0
                                             s1 0 0 0
                                             s2 0 0 0
                                             s3 0 0 0"

fun is_stokes :: "real MuellerMatrix \<Rightarrow> bool" where
  "is_stokes (MuellerMatrix m00 m01 m02 m03
                            m10 m11 m12 m13
                            m20 m21 m22 m23
                            m30 m31 m32 m33) \<longleftrightarrow>
     m01 = 0 \<and> m02 = 0 \<and> m03 = 0 \<and>
     m11 = 0 \<and> m12 = 0 \<and> m13 = 0 \<and>
     m21 = 0 \<and> m22 = 0 \<and> m23 = 0 \<and>
     m31 = 0 \<and> m32 = 0 \<and> m33 = 0"

text \<open>\<open>ek::sincos(x)\<close> returns the pair (sine, cosine).\<close>

definition sincos :: "real \<Rightarrow> real \<times> real" where
  "sincos x = (sin x, cos x)"

subsection \<open>Canonical optical elements\<close>

definition linear_retarder :: "real \<Rightarrow> real MuellerMatrix" where
  "linear_retarder phase =
     (let (s, c) = sincos phase in
      MuellerMatrix 1 0 0 0
                    0 1 0 0
                    0 0 c (- s)
                    0 0 s c)"

definition rotator :: "real \<Rightarrow> real MuellerMatrix" where
  "rotator theta =
     (let (s, c) = sincos (2 * theta) in
      MuellerMatrix 1 0 0 0
                    0 c s 0
                    0 (- s) c 0
                    0 0 0 1)"

subsection \<open>Frame transforms\<close>

definition rotated_element :: "real \<Rightarrow> real MuellerMatrix \<Rightarrow> real MuellerMatrix" where
  "rotated_element theta M =
     (let R = rotator theta; Rt = transpose_m R in
      mat_mul (mat_mul Rt M) R)"

definition reverse :: "real MuellerMatrix \<Rightarrow> real MuellerMatrix" where
  "reverse M =
     mat_mul (MuellerMatrix 1 0 0 0
                            0 1 0 0
                            0 0 (- 1) 0
                            0 0 0 (- 1)) M"

subsection \<open>Interaction matrix builders\<close>

text \<open>
  A scalar of \<open>specular_reflection\<close>: a real number or NaN. Every arithmetic operation
  returns NaN when an operand is NaN, the square root of a negative number is NaN, and
  a comparison with NaN is false.
\<close>

datatype flt = Num real | NaN

fun fadd :: "flt \<Rightarrow> flt \<Rightarrow> flt" where
  "fadd (Num x) (Num y) = Num (x + y)"
| "fadd _ _ = NaN"

fun fsub :: "flt \<Rightarrow> flt \<Rightarrow> flt" where
  "fsub (Num x) (Num y) = Num (x - y)"
| "fsub _ _ = NaN"

fun fmul :: "flt \<Rightarrow> flt \<Rightarrow> flt" where
  "fmul (Num x) (Num y) = Num (x * y)"
| "fmul _ _ = NaN"

fun fneg :: "flt \<Rightarrow> flt" where
  "fneg (Num x) = Num (- x)"
| "fneg NaN = NaN"

fun fsqrt :: "flt \<Rightarrow> flt" where
  "fsqrt (Num x) = (if x < 0 then NaN else Num (sqrt x))"
| "fsqrt NaN = NaN"

fun feq :: "flt \<Rightarrow> flt \<Rightarrow> bool" where
  "feq (Num x) (Num y) \<longleftrightarrow> x = y"
| "feq _ _ \<longleftrightarrow> False"

text \<open>
  \<open>ek::Complex<Float>\<close>: the real and the imaginary part. \<open>ek::sqr(z)\<close> is \<open>z * z\<close>,
  and \<open>ek::abs(z)\<close> is the norm, the square root of \<open>ek::squared_norm(z)\<close>.
\<close>

type_synonym cflt = "flt \<times> flt"

fun cmul :: "cflt \<Rightarrow> cflt \<Rightarrow> cflt" where
  "cmul (a, b) (c, d) = (fsub (fmul a c) (fmul b d), fadd (fmul a d) (fmul b c))"

definition csqr :: "cflt \<Rightarrow> cflt" where
  "csqr z = cmul z z"

fun squared_norm :: "cflt \<Rightarrow> flt" where
  "squared_norm (a, b) = fadd (fmul a a) (fmul b b)"

definition cabs :: "cflt \<Rightarrow> flt" where
  "cabs z = fsqrt (squared_norm z)"

text \<open>
  \<open>fresnel_polarized\<close> and \<open>sincos_arg_diff\<close> are declared in
  \<open>mitsuba/render/fresnel.h\<close>, which is not part of the sources at hand: both are
  parameters of the builders. \<open>fresnel_polarized(cos_theta_i, eta)\<close> returns the tuple
  \<open>(a_s, a_p, cos_theta_t, eta_it, eta_ti)\<close>, \<open>sincos_arg_diff(a_s, a_p)\<close> the pair
  \<open>(sin_delta, cos_delta)\<close>.

  The two masked assignments of \<open>specular_reflection\<close> overwrite \<open>sin_delta\<close> and
  \<open>cos_delta\<close> where \<open>c\<close> compares equal to zero.
\<close>

definition specular_reflection ::
  "(flt \<Rightarrow> 'eta \<Rightarrow> cflt \<times> cflt \<times> flt \<times> flt \<times> flt) \<Rightarrow> (cflt \<Rightarrow> cflt \<Rightarrow> flt \<times> flt) \<Rightarrow>
   flt \<Rightarrow> 'eta \<Rightarrow> flt MuellerMatrix" where
  "specular_reflection fresnel_polarized sincos_arg_diff cos_theta_i eta =
     (let (a_s, a_p, _, _, _) = fresnel_polarized cos_theta_i eta;
          (sin_delta, cos_delta) = sincos_arg_diff a_s a_p;
          r_s = cabs (csqr a_s);
          r_p = cabs (csqr a_p);
          a = fmul (Num (1 / 2)) (fadd r_s r_p);
          b = fmul (Num (1 / 2)) (fsub r_s r_p);
          c = fsqrt (fmul r_s r_p);
          sin_delta = (if feq c (Num 0) then Num 0 else sin_delta);
          cos_delta = (if feq c (Num 0) then Num 0 else cos_delta)
      in MuellerMatrix
           a b (Num 0) (Num 0)
           b a (Num 0) (Num 0)
           (Num 0) (Num 0) (fmul c cos_delta) (fmul c sin_delta)
           (Num 0) (Num 0) (fmul (fneg c) sin_delta) (fmul c cos_delta))"

text \<open>
  The literal \<open>1e-8f\<close>: the single-precision number nearest to \<open>10\<^sup>-\<^sup>8\<close>. Its
  significand is 11258999 and its exponent \<open>-50\<close>, so it lies a little below
  \<open>10\<^sup>-\<^sup>8\<close> (lemma \<open>lit_1e_8f_nearest\<close> below).
\<close>

definition lit_1e_8f :: real where
  "lit_1e_8f = 11258999 / 2 ^ 50"

text \<open>
  \<open>specular_transmission\<close> at \<open>Float = real\<close>. \<open>ek::select(m, x, y)\<close> is \<open>x\<close> where
  the mask \<open>m\<close> holds and \<open>y\<close> elsewhere. Both operands are evaluated in C++; the
  quotient \<open>cos_theta_t / cos_theta_i\<close> is computed and dropped where the mask is false.
\<close>

definition specular_transmission ::
  "(real \<Rightarrow> real \<Rightarrow> complex \<times> complex \<times> real \<times> real \<times> real) \<Rightarrow>
   real \<Rightarrow> real \<Rightarrow> real MuellerMatrix" where
  "specular_transmission fresnel_polarized cos_theta_i eta =
     (let (a_s, a_p, cos_theta_t, eta_it, eta_ti) = fresnel_polarized cos_theta_i eta;
          factor = - eta_it * (if \<bar>cos_theta_i\<bar> > lit_1e_8f
                               then cos_theta_t / cos_theta_i else 0);
          a_s_r = Re a_s + 1;
          a_p_r = (1 - Re a_p) * eta_ti;
          t_s = a_s_r * a_s_r;
          t_p = a_p_r * a_p_r;
          a = 1 / 2 * factor * (t_s + t_p);
          b = 1 / 2 * factor * (t_s - t_p);
          c = factor * sqrt (t_s * t_p)
      in MuellerMatrix
           a b 0 0
           b a 0 0
           0 0 c 0
           0 0 0 c)"

subsection \<open>Reference frames\<close>

text \<open>
  \<open>Vector3\<close> with enoki's \<open>dot\<close>, \<open>cross\<close>, \<open>norm\<close> and \<open>normalize\<close>. In C++
  \<open>normalize\<close> of the zero vector divides by zero; the properties below are stated for
  non-zero vectors only.
\<close>

datatype Vector3 = Vector3 real real real

fun dot :: "Vector3 \<Rightarrow> Vector3 \<Rightarrow> real" where
  "dot (Vector3 ax ay az) (Vector3 bx by bz) = ax * bx + ay * by + az * bz"

fun cross :: "Vector3 \<Rightarrow> Vector3 \<Rightarrow> Vector3" where
  "cross (Vector3 ax ay az) (Vector3 bx by bz) =
     Vector3 (ay * bz - az * by) (az * bx - ax * bz) (ax * by - ay * bx)"

definition norm3 :: "Vector3 \<Rightarrow> real" where
  "norm3 v = sqrt (dot v v)"

fun normalize_v :: "Vector3 \<Rightarrow> Vector3" where
  "normalize_v (Vector3 x y z) =
     (let n = norm3 (Vector3 x y z) in Vector3 (x / n) (y / n) (z / n))"

text \<open>
  Modelled from the spec: \<open>unit_angle\<close> is defined in \<open>mitsuba/core/vector.h\<close>, which
  is not part of the sources at hand. The specification gives its contract,
  "\<open>unit_angle(a, b) \<rightarrow> angle\<close>: numerically stable angle between two unit vectors";
  the angle between two unit vectors is the arc cosine of their dot product.
\<close>

definition unit_angle :: "Vector3 \<Rightarrow> Vector3 \<Rightarrow> real" where
  "unit_angle a b = arccos (dot a b)"

definition rotate_stokes_basis :: "Vector3 \<Rightarrow> Vector3 \<Rightarrow> Vector3 \<Rightarrow> real MuellerMatrix" where
  "rotate_stokes_basis forward basis_current basis_target =
     (let theta = unit_angle (normalize_v basis_current) (normalize_v basis_target);
          theta = (if dot forward (cross basis_current basis_target) < 0
                   then theta * (- 1) else theta)
      in rotator theta)"

definition rotate_mueller_basis ::
  "real MuellerMatrix \<Rightarrow> Vector3 \<Rightarrow> Vector3 \<Rightarrow> Vector3 \<Rightarrow> Vector3 \<Rightarrow> Vector3 \<Rightarrow> Vector3 \<Rightarrow>
   real MuellerMatrix" where
  "rotate_mueller_basis M in_forward in_basis_current in_basis_target
                          out_forward out_basis_current out_basis_target =
     (let R_in = rotate_stokes_basis in_forward in_basis_current in_basis_target;
          R_out = rotate_stokes_basis out_forward out_basis_current out_basis_target
      in mat_mul (mat_mul R_out M) (transpose_m R_in))"

definition rotate_mueller_basis_collinear ::
  "real MuellerMatrix \<Rightarrow> Vector3 \<Rightarrow> Vector3 \<Rightarrow> Vector3 \<Rightarrow> real MuellerMatrix" where
  "rotate_mueller_basis_collinear M forward basis_current basis_target =
     (let R = rotate_stokes_basis forward basis_current basis_target
      in mat_mul (mat_mul R M) (transpose_m R))"

subsection \<open>Notions of the specification\<close>

text \<open>
  The unsigned angle between two non-zero vectors, in \<open>[0, pi]\<close>: the angle the
  specification of \<open>rotate_stokes_basis\<close> speaks of.
\<close>

definition angle_between :: "Vector3 \<Rightarrow> Vector3 \<Rightarrow> real" where
  "angle_between a b = arccos (dot a b / (norm3 a * norm3 b))"

text \<open>
  The statement that all entries of a matrix outside the square block on the index
  list \<open>b\<close> are those of the identity matrix.
\<close>

definition identity_outside_block :: "nat list \<Rightarrow> real MuellerMatrix \<Rightarrow> bool" where
  "identity_outside_block b M \<longleftrightarrow>
     (\<forall>i \<in> {0..<4}. \<forall>j \<in> {0..<4}.
        (i \<in> set b \<and> j \<in> set b) \<or> entry M i j = entry identity i j)"

text \<open>\<open>diag(a, b, c, d)\<close>, the diagonal matrix the specification of \<open>reverse\<close> names.\<close>

definition diag :: "real \<Rightarrow> real \<Rightarrow> real \<Rightarrow> real \<Rightarrow> real MuellerMatrix" where
  "diag a b c d = MuellerMatrix a 0 0 0
                                0 b 0 0
                                0 0 c 0
                                0 0 0 d"

section \<open>Properties\<close>

lemma identity_outside_block_iff:
  "identity_outside_block b M \<longleftrightarrow>
     (\<forall>i \<in> set [0, 1, 2, 3]. \<forall>j \<in> set [0, 1, 2, 3].
        (i \<in> set b \<and> j \<in> set b) \<or> entry M i j = entry identity i j)"
proof -
  have "{0..<4::nat} = set [0, 1, 2, 3]"
    by auto
  then show ?thesis
    unfolding identity_outside_block_def by simp
qed

subsection \<open>Matrix algebra\<close>

lemma rotator_explicit:
  "rotator theta =
     MuellerMatrix 1 0 0 0
                   0 (cos (2 * theta)) (sin (2 * theta)) 0
                   0 (- sin (2 * theta)) (cos (2 * theta)) 0
                   0 0 0 1"
  by (simp add: rotator_def sincos_def)

lemma mat_mul_assoc: "mat_mul (mat_mul A B) C = mat_mul A (mat_mul B C)"
  by (cases A; cases B; cases C) (simp add: algebra_simps)

lemma mat_mul_identity_left: "mat_mul identity M = M"
  by (cases M) (simp add: identity_def)

lemma mat_mul_identity_right: "mat_mul M identity = M"
  by (cases M) (simp add: identity_def)

lemma transpose_rotator: "transpose_m (rotator theta) = rotator (- theta)"
  by (simp add: rotator_explicit)

lemma sin_sin_cos_cos: "sin x * sin x + cos x * cos x = (1::real)"
  using sin_cos_squared_add3 [of x] by (simp add: add.commute)

lemma rotator_inverse: "mat_mul (rotator theta) (rotator (- theta)) = identity"
  by (simp add: rotator_explicit identity_def sin_sin_cos_cos)

lemma rotator_zero: "rotator 0 = identity"
  by (simp add: rotator_explicit identity_def)

subsection \<open>Vectors\<close>

lemma dot_self_nonneg: "0 \<le> dot v v"
  by (cases v) simp

lemma dot_self_zero: "dot v v = 0 \<longleftrightarrow> v = Vector3 0 0 0"
  by (cases v) (simp add: add_nonneg_eq_0_iff)

lemma norm3_pos: "v \<noteq> Vector3 0 0 0 \<Longrightarrow> 0 < norm3 v"
  using dot_self_nonneg [of v] dot_self_zero [of v] by (simp add: norm3_def less_le)

lemma dot_normalize_v: "dot (normalize_v a) (normalize_v b) = dot a b / (norm3 a * norm3 b)"
  by (cases a; cases b) (simp add: Let_def add_divide_distrib)

text \<open>Lagrange's identity, from which the Cauchy-Schwarz inequality follows.\<close>

lemma dot_cross_lagrange: "dot a a * dot b b - (dot a b)\<^sup>2 = dot (cross a b) (cross a b)"
  by (cases a; cases b) (simp add: power2_eq_square algebra_simps)

lemma abs_dot_le: "\<bar>dot a b\<bar> \<le> norm3 a * norm3 b"
proof -
  have "(dot a b)\<^sup>2 \<le> dot a a * dot b b"
    using dot_cross_lagrange [of a b] dot_self_nonneg [of "cross a b"] by linarith
  then have "sqrt ((dot a b)\<^sup>2) \<le> sqrt (dot a a * dot b b)"
    by (rule real_sqrt_le_mono)
  then show ?thesis
    by (simp add: norm3_def real_sqrt_mult)
qed

lemma cos_angle_bounds:
  assumes "a \<noteq> Vector3 0 0 0" "b \<noteq> Vector3 0 0 0"
  shows "- 1 \<le> dot a b / (norm3 a * norm3 b)" "dot a b / (norm3 a * norm3 b) \<le> 1"
proof -
  have pos: "0 < norm3 a * norm3 b"
    using assms by (simp add: norm3_pos)
  have "\<bar>dot a b\<bar> \<le> norm3 a * norm3 b"
    by (rule abs_dot_le)
  then have le1: "\<bar>dot a b\<bar> / (norm3 a * norm3 b) \<le> 1"
    using pos by (simp add: divide_le_eq_1_pos)
  have eq: "\<bar>dot a b / (norm3 a * norm3 b)\<bar> = \<bar>dot a b\<bar> / (norm3 a * norm3 b)"
    using pos by (simp only: abs_divide abs_of_pos)
  have "\<bar>dot a b / (norm3 a * norm3 b)\<bar> \<le> 1"
    using le1 by (simp only: eq)
  then show "- 1 \<le> dot a b / (norm3 a * norm3 b)" "dot a b / (norm3 a * norm3 b) \<le> 1"
    by linarith+
qed

lemma angle_between_self: "a \<noteq> Vector3 0 0 0 \<Longrightarrow> angle_between a a = 0"
  using norm3_pos [of a] dot_self_nonneg [of a]
  by (simp add: angle_between_def norm3_def)

lemma cross_self: "cross a a = Vector3 0 0 0"
  by (cases a) simp

lemma dot_zero_right: "dot a (Vector3 0 0 0) = 0"
  by (cases a) simp

subsection \<open>Basis rotation\<close>

text \<open>
  Claim C1. For a unit vector \<open>forward\<close> and non-zero bases orthogonal to it,
  \<open>rotate_stokes_basis\<close> returns the rotator of the unsigned angle between the two
  bases, an angle in \<open>[0, pi]\<close>, negated exactly when the triple product
  \<open>forward . (basis_current x basis_target)\<close> is negative; with equal bases the result
  is the identity matrix.
\<close>

theorem rotate_stokes_basis_signed_angle:
  assumes "norm3 forward = 1"
    and "basis_current \<noteq> Vector3 0 0 0" and "basis_target \<noteq> Vector3 0 0 0"
    and "dot forward basis_current = 0" and "dot forward basis_target = 0"
  shows "rotate_stokes_basis forward basis_current basis_target =
           rotator (if dot forward (cross basis_current basis_target) < 0
                    then - angle_between basis_current basis_target
                    else angle_between basis_current basis_target) \<and>
         0 \<le> angle_between basis_current basis_target \<and>
         angle_between basis_current basis_target \<le> pi \<and>
         rotate_stokes_basis forward basis_current basis_current = identity"
proof (intro conjI)
  show "rotate_stokes_basis forward basis_current basis_target =
           rotator (if dot forward (cross basis_current basis_target) < 0
                    then - angle_between basis_current basis_target
                    else angle_between basis_current basis_target)"
    by (simp add: rotate_stokes_basis_def unit_angle_def angle_between_def
        dot_normalize_v Let_def)
  show "0 \<le> angle_between basis_current basis_target"
    unfolding angle_between_def using cos_angle_bounds [OF assms(2,3)] by (rule arccos_lbound)
  show "angle_between basis_current basis_target \<le> pi"
    unfolding angle_between_def using cos_angle_bounds [OF assms(2,3)] by (rule arccos_ubound)
  have "unit_angle (normalize_v basis_current) (normalize_v basis_current) = 0"
    using angle_between_self [OF assms(2)]
    by (simp add: unit_angle_def angle_between_def dot_normalize_v)
  then show "rotate_stokes_basis forward basis_current basis_current = identity"
    by (simp add: rotate_stokes_basis_def cross_self dot_zero_right rotator_zero)
qed

text \<open>
  Looking along \<open>-z\<close>, the basis \<open>x\<close> is a quarter turn away from the basis \<open>y\<close> and
  the triple product is negative: the rotator of \<open>-pi/2\<close>.
\<close>

theorem rotate_stokes_basis_signed_angle_witness:
  "norm3 (Vector3 0 0 (- 1)) = 1 \<and>
   Vector3 1 0 0 \<noteq> Vector3 0 0 0 \<and> Vector3 0 1 0 \<noteq> Vector3 0 0 0 \<and>
   dot (Vector3 0 0 (- 1)) (Vector3 1 0 0) = 0 \<and>
   dot (Vector3 0 0 (- 1)) (Vector3 0 1 0) = 0 \<and>
   dot (Vector3 0 0 (- 1)) (cross (Vector3 1 0 0) (Vector3 0 1 0)) < 0 \<and>
   angle_between (Vector3 1 0 0) (Vector3 0 1 0) = pi / 2 \<and>
   rotate_stokes_basis (Vector3 0 0 (- 1)) (Vector3 1 0 0) (Vector3 0 1 0) =
     rotator (- (pi / 2)) \<and>
   rotate_stokes_basis (Vector3 0 0 (- 1)) (Vector3 1 0 0) (Vector3 1 0 0) = identity"
proof -
  have h: "norm3 (Vector3 0 0 (- 1)) = 1" "Vector3 1 0 0 \<noteq> Vector3 0 0 0"
    "Vector3 0 1 0 \<noteq> Vector3 0 0 0" "dot (Vector3 0 0 (- 1)) (Vector3 1 0 0) = 0"
    "dot (Vector3 0 0 (- 1)) (Vector3 0 1 0) = 0"
    by (simp_all add: norm3_def)
  have a: "angle_between (Vector3 1 0 0) (Vector3 0 1 0) = pi / 2"
    by (simp add: angle_between_def)
  show ?thesis
    using h rotate_stokes_basis_signed_angle [OF h] by (simp add: a)
qed

text \<open>
  Claim C8. With the same frame arguments on the input and on the output side,
  \<open>rotate_mueller_basis\<close> is \<open>rotate_mueller_basis_collinear\<close>, and both are
  \<open>R * M * transpose(R)\<close> for the one matrix \<open>R\<close> that \<open>rotate_stokes_basis\<close> returns.
\<close>

theorem rotate_mueller_basis_collinear_agree:
  "rotate_mueller_basis M forward basis_current basis_target
                          forward basis_current basis_target =
     rotate_mueller_basis_collinear M forward basis_current basis_target \<and>
   rotate_mueller_basis_collinear M forward basis_current basis_target =
     mat_mul (mat_mul (rotate_stokes_basis forward basis_current basis_target) M)
             (transpose_m (rotate_stokes_basis forward basis_current basis_target))"
  by (simp add: rotate_mueller_basis_def rotate_mueller_basis_collinear_def Let_def)

subsection \<open>The rotator and rotated elements\<close>

text \<open>
  Claim C2. \<open>rotated_element(theta, M)\<close> is
  \<open>transpose(rotator(theta)) * M * rotator(theta)\<close>, in this order;
  \<open>rotator(theta) * rotator(-theta)\<close> is the identity matrix,
  \<open>rotated_element(0, M)\<close> is \<open>M\<close>, and rotating an element by \<open>-theta\<close> and then by
  \<open>theta\<close> gives the element back.
\<close>

theorem rotated_element_inverse:
  "rotated_element theta M =
     mat_mul (mat_mul (transpose_m (rotator theta)) M) (rotator theta) \<and>
   mat_mul (rotator theta) (rotator (- theta)) = identity \<and>
   rotated_element 0 M = M \<and>
   rotated_element theta (rotated_element (- theta) M) = M"
proof (intro conjI)
  show "rotated_element theta M =
          mat_mul (mat_mul (transpose_m (rotator theta)) M) (rotator theta)"
    by (simp add: rotated_element_def Let_def)
  show "mat_mul (rotator theta) (rotator (- theta)) = identity"
    by (rule rotator_inverse)
  show "rotated_element 0 M = M"
    by (cases M) (simp add: rotated_element_def rotator_zero identity_def)
  have flip: "mat_mul (rotator (- theta)) (rotator theta) = identity"
    using rotator_inverse [of "- theta"] by simp
  have "rotated_element theta (rotated_element (- theta) M) =
        mat_mul (mat_mul (rotator (- theta))
                   (mat_mul (mat_mul (rotator theta) M) (rotator (- theta))))
                (rotator theta)"
    by (simp add: rotated_element_def transpose_rotator Let_def)
  also have "\<dots> = mat_mul (mat_mul (rotator (- theta)) (rotator theta))
                      (mat_mul M (mat_mul (rotator (- theta)) (rotator theta)))"
    by (simp only: mat_mul_assoc)
  also have "\<dots> = M"
    by (simp only: flip mat_mul_identity_left mat_mul_identity_right)
  finally show "rotated_element theta (rotated_element (- theta) M) = M" .
qed

text \<open>
  Claim C3, as stated: the rotator is the identity outside the block on the indices 2
  and 3 (the +45/-45 degree linear and the circular component). It is not: the rotator of
  a quarter turn has \<open>cos pi = -1\<close> at row 1, column 1.
\<close>

theorem rotator_block_2_3_counterexample:
  "\<not> identity_outside_block [2, 3] (rotator (pi / 2))"
  by (simp add: identity_outside_block_iff rotator_explicit identity_def entry_def)

text \<open>
  Claim C3, amended: the block built from \<open>sin (2 theta)\<close> and \<open>cos (2 theta)\<close> is on the
  indices 1 and 2, the two linear components of the Stokes vector; row and column 3
  (the circular component) and row and column 0 (the intensity) are those of the
  identity.
\<close>

theorem rotator_block_1_2:
  "identity_outside_block [1, 2] (rotator theta) \<and>
   entry (rotator theta) 1 1 = cos (2 * theta) \<and>
   entry (rotator theta) 1 2 = sin (2 * theta) \<and>
   entry (rotator theta) 2 1 = - sin (2 * theta) \<and>
   entry (rotator theta) 2 2 = cos (2 * theta)"
  by (simp add: identity_outside_block_iff rotator_explicit identity_def entry_def)

theorem rotator_block_1_2_witness:
  "identity_outside_block [1, 2] (rotator (pi / 4)) \<and>
   entry (rotator (pi / 4)) 1 1 = 0 \<and>
   entry (rotator (pi / 4)) 1 2 = 1 \<and>
   entry (rotator (pi / 4)) 2 1 = - 1 \<and>
   entry (rotator (pi / 4)) 2 2 = 0"
  using rotator_block_1_2 [of "pi / 4"] by simp

subsection \<open>Reversal and the half-wave plate\<close>

text \<open>
  Claim C7. \<open>reverse(M)\<close> is \<open>diag(1, 1, -1, -1) * M\<close>, that is \<open>M\<close> with rows 2 and 3
  negated, and reversing twice gives \<open>M\<close> back.
\<close>

theorem reverse_involution:
  "reverse M = mat_mul (diag 1 1 (- 1) (- 1)) M \<and>
   reverse (MuellerMatrix m00 m01 m02 m03
                          m10 m11 m12 m13
                          m20 m21 m22 m23
                          m30 m31 m32 m33) =
     MuellerMatrix m00 m01 m02 m03
                   m10 m11 m12 m13
                   (- m20) (- m21) (- m22) (- m23)
                   (- m30) (- m31) (- m32) (- m33) \<and>
   reverse (reverse M) = M"
  by (cases M) (simp add: reverse_def diag_def)

text \<open>
  Claim C9. The half-wave plate \<open>linear_retarder(pi)\<close> sends the Stokes vector
  \<open>[1, 0, 1, 0]\<close> to \<open>[1, 0, -1, 0]\<close>, and applied twice it returns every Stokes
  vector unchanged.
\<close>

theorem linear_retarder_half_wave:
  "mat_mul (linear_retarder pi) (stokes_vector 1 0 1 0) = stokes_vector 1 0 (- 1) 0 \<and>
   mat_mul (linear_retarder pi) (mat_mul (linear_retarder pi) (stokes_vector s0 s1 s2 s3)) =
     stokes_vector s0 s1 s2 s3"
  by (simp add: linear_retarder_def sincos_def stokes_vector_def)

subsection \<open>The Stokes-vector invariant\<close>

text \<open>
  Claim C10. If columns 1 to 3 of \<open>S\<close> are zero, then so are those of \<open>M * S\<close>, for
  every matrix \<open>M\<close>.
\<close>

theorem mat_mul_preserves_stokes: "is_stokes S \<Longrightarrow> is_stokes (mat_mul M S)"
  by (cases M; cases S) simp

text \<open>
  The example of the header's comment on \<open>rotator\<close>: horizontally polarized light seen
  in a frame rotated by 45 degrees.
\<close>

theorem mat_mul_preserves_stokes_witness:
  "is_stokes (stokes_vector 1 1 0 0) \<and>
   is_stokes (mat_mul (rotator (pi / 4)) (stokes_vector 1 1 0 0)) \<and>
   mat_mul (rotator (pi / 4)) (stokes_vector 1 1 0 0) = stokes_vector 1 0 (- 1) 0"
proof -
  have h: "is_stokes (stokes_vector 1 1 0 0)"
    by (simp add: stokes_vector_def)
  have "mat_mul (rotator (pi / 4)) (stokes_vector 1 1 0 0) = stokes_vector 1 0 (- 1) 0"
    by (simp add: rotator_explicit stokes_vector_def)
  with h mat_mul_preserves_stokes [OF h, of "rotator (pi / 4)"] show ?thesis
    by simp
qed

subsection \<open>Specular reflection\<close>

lemma squared_norm_Num:
  assumes "squared_norm z = Num r"
  obtains x y where "z = (Num x, Num y)" "x * x + y * y = r"
proof -
  obtain a b where z: "z = (a, b)"
    by (cases z)
  from assms z obtain x y where "a = Num x" "b = Num y"
    by (cases a; cases b) simp_all
  with assms z that show thesis
    by simp
qed

text \<open>\<open>|z * z| = |z|\<^sup>2\<close> for a complex number without NaN.\<close>

lemma cabs_csqr:
  assumes "squared_norm z = Num r"
  shows "cabs (csqr z) = Num r"
proof -
  from assms obtain x y where z: "z = (Num x, Num y)" and r: "x * x + y * y = r"
    by (rule squared_norm_Num)
  have e: "(x * x - y * y) * (x * x - y * y) + (x * y + y * x) * (x * y + y * x) =
           (x * x + y * y)\<^sup>2"
    by (simp add: power2_eq_square algebra_simps)
  have nn: "0 \<le> x * x + y * y"
    by simp
  have "sqrt ((x * x - y * y) * (x * x - y * y) + (x * y + y * x) * (x * y + y * x)) =
        x * x + y * y"
    using nn by (simp only: e real_sqrt_abs abs_of_nonneg)
  moreover have "\<not> (x * x - y * y) * (x * x - y * y) + (x * y + y * x) * (x * y + y * x) < 0"
    by (simp only: e not_less zero_le_power2)
  ultimately show ?thesis
    using r by (simp add: z cabs_def csqr_def)
qed

text \<open>
  Claim C4. Whatever the Fresnel collaborator and \<open>sincos_arg_diff\<close> return, NaN
  included: when the joint reflectance \<open>c = sqrt(r_s * r_p)\<close> is zero, the four entries
  of the lower-right block of \<open>specular_reflection\<close> are the number zero.
\<close>

theorem specular_reflection_zero_block:
  assumes "fresnel_polarized cos_theta_i eta = (a_s, a_p, rest)"
    and "fsqrt (fmul (cabs (csqr a_s)) (cabs (csqr a_p))) = Num 0"
  shows "entry (specular_reflection fresnel_polarized sincos_arg_diff cos_theta_i eta) 2 2 =
           Num 0 \<and>
         entry (specular_reflection fresnel_polarized sincos_arg_diff cos_theta_i eta) 2 3 =
           Num 0 \<and>
         entry (specular_reflection fresnel_polarized sincos_arg_diff cos_theta_i eta) 3 2 =
           Num 0 \<and>
         entry (specular_reflection fresnel_polarized sincos_arg_diff cos_theta_i eta) 3 3 =
           Num 0"
  using assms
  by (cases rest; cases "sincos_arg_diff a_s a_p")
     (simp add: specular_reflection_def entry_def Let_def split: prod.splits)

text \<open>
  A boundary that absorbs the s-polarized field (\<open>a_s = 0\<close>, \<open>a_p = 1\<close>), with a phase
  computation that returns NaN for both the sine and the cosine.
\<close>

theorem specular_reflection_zero_block_witness:
  "(\<lambda>c e. ((Num 0, Num 0), (Num 1, Num 0), Num 1, Num 1, Num 1)) (Num 1) (Num 1) =
     ((Num 0, Num 0), (Num 1, Num 0), Num 1, Num 1, Num 1) \<and>
   fsqrt (fmul (cabs (csqr (Num 0, Num 0))) (cabs (csqr (Num 1, Num 0)))) = Num 0 \<and>
   entry (specular_reflection (\<lambda>c e. ((Num 0, Num 0), (Num 1, Num 0), Num 1, Num 1, Num 1))
            (\<lambda>a b. (NaN, NaN)) (Num 1) (Num 1)) 2 2 = Num 0 \<and>
   entry (specular_reflection (\<lambda>c e. ((Num 0, Num 0), (Num 1, Num 0), Num 1, Num 1, Num 1))
            (\<lambda>a b. (NaN, NaN)) (Num 1) (Num 1)) 2 3 = Num 0 \<and>
   entry (specular_reflection (\<lambda>c e. ((Num 0, Num 0), (Num 1, Num 0), Num 1, Num 1, Num 1))
            (\<lambda>a b. (NaN, NaN)) (Num 1) (Num 1)) 3 2 = Num 0 \<and>
   entry (specular_reflection (\<lambda>c e. ((Num 0, Num 0), (Num 1, Num 0), Num 1, Num 1, Num 1))
            (\<lambda>a b. (NaN, NaN)) (Num 1) (Num 1)) 3 3 = Num 0 \<and>
   specular_reflection (\<lambda>c e. ((Num 0, Num 0), (Num 1, Num 0), Num 1, Num 1, Num 1))
       (\<lambda>a b. (NaN, NaN)) (Num 1) (Num 1) =
     MuellerMatrix (Num (1 / 2)) (Num (- 1 / 2)) (Num 0) (Num 0)
                   (Num (- 1 / 2)) (Num (1 / 2)) (Num 0) (Num 0)
                   (Num 0) (Num 0) (Num 0) (Num 0)
                   (Num 0) (Num 0) (Num 0) (Num 0)"
proof -
  let ?f = "\<lambda>(c::flt) (e::flt). ((Num 0, Num 0), (Num 1, Num 0), Num 1, Num 1, Num 1)"
  have c0: "fsqrt (fmul (cabs (csqr (Num 0, Num 0))) (cabs (csqr (Num 1, Num 0)))) = Num 0"
    by (simp add: cabs_def csqr_def)
  have m: "specular_reflection ?f (\<lambda>a b. (NaN, NaN)) (Num 1) (Num 1) =
     MuellerMatrix (Num (1 / 2)) (Num (- 1 / 2)) (Num 0) (Num 0)
                   (Num (- 1 / 2)) (Num (1 / 2)) (Num 0) (Num 0)
                   (Num 0) (Num 0) (Num 0) (Num 0)
                   (Num 0) (Num 0) (Num 0) (Num 0)"
    by (simp add: specular_reflection_def cabs_def csqr_def Let_def)
  have "entry (specular_reflection ?f (\<lambda>a b. (NaN, NaN)) (Num 1) (Num 1)) 2 2 = Num 0 \<and>
        entry (specular_reflection ?f (\<lambda>a b. (NaN, NaN)) (Num 1) (Num 1)) 2 3 = Num 0 \<and>
        entry (specular_reflection ?f (\<lambda>a b. (NaN, NaN)) (Num 1) (Num 1)) 3 2 = Num 0 \<and>
        entry (specular_reflection ?f (\<lambda>a b. (NaN, NaN)) (Num 1) (Num 1)) 3 3 = Num 0"
    using c0
    by (intro specular_reflection_zero_block
          [where a_s = "(Num 0, Num 0)" and a_p = "(Num 1, Num 0)"
             and rest = "(Num 1, Num 1, Num 1)"]) simp_all
  with c0 m show ?thesis
    by simp
qed

text \<open>
  Claim C6. At normal incidence on a dielectric of index 1.5, if the Fresnel
  collaborator returns amplitudes with \<open>|a_s|\<^sup>2 = |a_p|\<^sup>2 = ((eta - 1) / (eta + 1))\<^sup>2\<close>,
  then entry (0, 0) of \<open>specular_reflection\<close> is that reflectance and the two
  diattenuation entries \<open>b\<close> at (0, 1) and (1, 0) are zero.
\<close>

theorem specular_reflection_normal_incidence:
  assumes "fresnel_polarized (Num 1) (Num (3 / 2)) = (a_s, a_p, rest)"
    and "squared_norm a_s = Num (((3 / 2 - 1) / (3 / 2 + 1))\<^sup>2)"
    and "squared_norm a_p = Num (((3 / 2 - 1) / (3 / 2 + 1))\<^sup>2)"
  shows "entry (specular_reflection fresnel_polarized sincos_arg_diff (Num 1) (Num (3 / 2))) 0 0 =
           Num (((3 / 2 - 1) / (3 / 2 + 1))\<^sup>2) \<and>
         entry (specular_reflection fresnel_polarized sincos_arg_diff (Num 1) (Num (3 / 2))) 0 1 =
           Num 0 \<and>
         entry (specular_reflection fresnel_polarized sincos_arg_diff (Num 1) (Num (3 / 2))) 1 0 =
           Num 0"
  using assms(1) cabs_csqr [OF assms(2)] cabs_csqr [OF assms(3)]
  by (cases rest; cases "sincos_arg_diff a_s a_p")
     (simp add: specular_reflection_def entry_def Let_def split: prod.splits)

text \<open>
  The amplitudes of the Fresnel equations at normal incidence for \<open>eta = 1.5\<close>:
  \<open>a_s = -1/5\<close> and \<open>a_p = 1/5\<close>, a phase difference of \<open>pi\<close>; the reflectance is
  \<open>1/25\<close>.
\<close>

theorem specular_reflection_normal_incidence_witness:
  "(\<lambda>c e. ((Num (- 1 / 5), Num 0), (Num (1 / 5), Num 0), Num (- 1), Num (3 / 2), Num (2 / 3)))
     (Num 1) (Num (3 / 2)) =
     ((Num (- 1 / 5), Num 0), (Num (1 / 5), Num 0), Num (- 1), Num (3 / 2), Num (2 / 3)) \<and>
   squared_norm (Num (- 1 / 5), Num 0) = Num (((3 / 2 - 1) / (3 / 2 + 1))\<^sup>2) \<and>
   squared_norm (Num (1 / 5), Num 0) = Num (((3 / 2 - 1) / (3 / 2 + 1))\<^sup>2) \<and>
   entry (specular_reflection
            (\<lambda>c e. ((Num (- 1 / 5), Num 0), (Num (1 / 5), Num 0),
                     Num (- 1), Num (3 / 2), Num (2 / 3)))
            (\<lambda>a b. (Num 0, Num (- 1))) (Num 1) (Num (3 / 2))) 0 0 = Num (1 / 25) \<and>
   entry (specular_reflection
            (\<lambda>c e. ((Num (- 1 / 5), Num 0), (Num (1 / 5), Num 0),
                     Num (- 1), Num (3 / 2), Num (2 / 3)))
            (\<lambda>a b. (Num 0, Num (- 1))) (Num 1) (Num (3 / 2))) 0 1 = Num 0 \<and>
   entry (specular_reflection
            (\<lambda>c e. ((Num (- 1 / 5), Num 0), (Num (1 / 5), Num 0),
                     Num (- 1), Num (3 / 2), Num (2 / 3)))
            (\<lambda>a b. (Num 0, Num (- 1))) (Num 1) (Num (3 / 2))) 1 0 = Num 0"
proof -
  let ?f = "\<lambda>(c::flt) (e::flt).
              ((Num (- 1 / 5), Num 0), (Num (1 / 5), Num 0), Num (- 1), Num (3 / 2), Num (2 / 3))"
  let ?g = "\<lambda>(a::cflt) (b::cflt). (Num 0, Num (- 1))"
  have r: "((3 / 2 - 1) / (3 / 2 + 1))\<^sup>2 = (1 / 25 :: real)"
  proof -
    have "((3 / 2 - 1) / (3 / 2 + 1))\<^sup>2 = ((1 / 5)\<^sup>2 :: real)"
      by simp
    also have "\<dots> = 1 / 25"
      by (simp add: power2_eq_square)
    finally show ?thesis .
  qed
  have s: "squared_norm (Num (- 1 / 5), Num 0) = Num (((3 / 2 - 1) / (3 / 2 + 1))\<^sup>2)"
    unfolding r by simp
  have p: "squared_norm (Num (1 / 5), Num 0) = Num (((3 / 2 - 1) / (3 / 2 + 1))\<^sup>2)"
    unfolding r by simp
  have "entry (specular_reflection ?f ?g (Num 1) (Num (3 / 2))) 0 0 =
          Num (((3 / 2 - 1) / (3 / 2 + 1))\<^sup>2) \<and>
        entry (specular_reflection ?f ?g (Num 1) (Num (3 / 2))) 0 1 = Num 0 \<and>
        entry (specular_reflection ?f ?g (Num 1) (Num (3 / 2))) 1 0 = Num 0"
    using s p
    by (intro specular_reflection_normal_incidence
          [where a_s = "(Num (- 1 / 5), Num 0)" and a_p = "(Num (1 / 5), Num 0)"
             and rest = "(Num (- 1), Num (3 / 2), Num (2 / 3))"]) simp_all
  with s p show ?thesis
    by (simp only: r)
qed

subsection \<open>Specular transmission\<close>

text \<open>
  \<open>lit_1e_8f\<close> is a single-precision number (a 24-bit significand times \<open>2\<^sup>-\<^sup>5\<^sup>0\<close>), and
  it is less than half a unit in the last place below \<open>10\<^sup>-\<^sup>8\<close>.
\<close>

lemma lit_1e_8f_nearest:
  "lit_1e_8f = 11258999 / 2 ^ 50 \<and> (2::nat) ^ 23 \<le> 11258999 \<and> (11258999::nat) < 2 ^ 24 \<and>
   lit_1e_8f < 1 / 10 ^ 8 \<and> 1 / 10 ^ 8 - lit_1e_8f < 1 / 2 ^ 51"
  by (simp add: lit_1e_8f_def)

text \<open>
  Claim C5, as stated: the matrix is the zero matrix whenever \<open>|cos_theta_i| \<le> 1e-8\<close>.
  It is not at \<open>Float = double\<close>: \<open>180143985 / 2\<^sup>5\<^sup>4\<close> is a double between \<open>1e-8f\<close>
  and \<open>10\<^sup>-\<^sup>8\<close>, the mask holds there, and the quotient is used. With the Fresnel data
  of an index-matched boundary (\<open>a_s = a_p = 0\<close>, \<open>cos_theta_t = -cos_theta_i\<close>,
  \<open>eta_it = eta_ti = 1\<close>) the result is the identity matrix.
\<close>

theorem specular_transmission_threshold_counterexample:
  "lit_1e_8f < 180143985 / 2 ^ 54 \<and>
   \<bar>180143985 / 2 ^ 54 :: real\<bar> \<le> 1 / 10 ^ 8 \<and>
   specular_transmission (\<lambda>c e. (0, 0, - c, 1, 1)) (180143985 / 2 ^ 54) 1 = identity \<and>
   identity \<noteq> zero_matrix"
  by (simp add: specular_transmission_def lit_1e_8f_def identity_def zero_matrix_def Let_def)

text \<open>
  Claim C5, amended: the threshold is the single-precision literal \<open>1e-8f\<close>, the number
  \<open>11258999 / 2\<^sup>5\<^sup>0\<close>. The unit-conversion factor of \<open>specular_transmission\<close> is
  \<open>-eta_it * (cos_theta_t / cos_theta_i)\<close>, except that it is 0, the quotient being
  dropped, when \<open>|cos_theta_i|\<close> is not above \<open>1e-8f\<close>; the entries \<open>a\<close>, \<open>b\<close> and \<open>c\<close>
  carry the factor, and the matrix is the zero matrix whenever \<open>|cos_theta_i| \<le> 1e-8f\<close>.
\<close>

theorem specular_transmission_factor:
  assumes "fresnel_polarized cos_theta_i eta = (a_s, a_p, cos_theta_t, eta_it, eta_ti)"
  shows "specular_transmission fresnel_polarized cos_theta_i eta =
           (let factor = (if \<bar>cos_theta_i\<bar> \<le> 11258999 / 2 ^ 50 then 0
                          else - eta_it * (cos_theta_t / cos_theta_i));
                t_s = (Re a_s + 1)\<^sup>2;
                t_p = ((1 - Re a_p) * eta_ti)\<^sup>2
            in MuellerMatrix
                 (factor * (t_s + t_p) / 2) (factor * (t_s - t_p) / 2) 0 0
                 (factor * (t_s - t_p) / 2) (factor * (t_s + t_p) / 2) 0 0
                 0 0 (factor * sqrt (t_s * t_p)) 0
                 0 0 0 (factor * sqrt (t_s * t_p))) \<and>
         (\<bar>cos_theta_i\<bar> \<le> 11258999 / 2 ^ 50 \<longrightarrow>
            specular_transmission fresnel_polarized cos_theta_i eta = zero_matrix)"
proof -
  have m: "\<bar>cos_theta_i\<bar> > lit_1e_8f \<longleftrightarrow> \<not> \<bar>cos_theta_i\<bar> \<le> 11258999 / 2 ^ 50"
    unfolding lit_1e_8f_def by (simp only: not_le)
  show ?thesis
    using assms
    by (simp only: specular_transmission_def m)
       (simp add: zero_matrix_def Let_def power2_eq_square)
qed

text \<open>
  The index-matched boundary again, at the threshold itself: \<open>|cos_theta_i| = 1e-8f\<close> is
  not above the threshold, and the matrix is zero.
\<close>

theorem specular_transmission_factor_witness:
  "(\<lambda>c e. (0 :: complex, 0 :: complex, - c, 1 :: real, 1 :: real)) (11258999 / 2 ^ 50 :: real)
     (1 :: real) = (0, 0, - (11258999 / 2 ^ 50), 1, 1) \<and>
   \<bar>11258999 / 2 ^ 50 :: real\<bar> \<le> 11258999 / 2 ^ 50 \<and>
   specular_transmission (\<lambda>c e. (0, 0, - c, 1, 1)) (11258999 / 2 ^ 50) 1 = zero_matrix"
proof -
  let ?f = "\<lambda>(c::real) (e::real). (0 :: complex, 0 :: complex, - c, 1 :: real, 1 :: real)"
  have h: "\<bar>11258999 / 2 ^ 50 :: real\<bar> \<le> 11258999 / 2 ^ 50"
    by simp
  show ?thesis
    using h
      specular_transmission_factor
        [where fresnel_polarized = ?f and cos_theta_i = "11258999 / 2 ^ 50" and eta = 1
           and a_s = 0 and a_p = 0 and cos_theta_t = "- (11258999 / 2 ^ 50)"
           and eta_it = 1 and eta_ti = 1]
    by (simp add: zero_matrix_def)
qed

end
